theory Spec2Isabelle
  imports Main "HOL-Library.Word" "HOL-Library.Char_ord" "HOL-Library.List_Lexorder"
begin

section \<open>Session store (package auth)\<close>

text \<open>
  Instants are nanosecond counts on one clock (Go's \<^verbatim>\<open>time.Time\<close>); a duration is a
  nanosecond count as well (\<^verbatim>\<open>time.Duration\<close>), so \<^verbatim>\<open>t.Add(d)\<close> is \<open>t + d\<close> and
  \<^verbatim>\<open>t.Before(u)\<close> is \<open>t < u\<close>.
\<close>

type_synonym Time = int

definition Hour :: int where
  "Hour = 3600 * 1000000000"

definition Before :: "Time \<Rightarrow> Time \<Rightarrow> bool" where
  "Before t u = (t < u)"

record Session =
  UserID :: int
  Username :: string
  GroupIDs :: "int list"
  Expires :: Time

text \<open>
  \<^verbatim>\<open>SessionStore.sessions\<close> is a Go map from the session id to the session. The mutex
  makes every operation atomic, so each operation is a function on the map.
\<close>

type_synonym SessionStore = "string \<rightharpoonup> Session"

definition NewSessionStore :: SessionStore where
  "NewSessionStore = Map.empty"

datatype error = RandUnavailable | SqlError | ErrNoRows | InvalidPassword | SyntaxError
  | RangeError | PathError

subsection \<open>The random source and base64\<close>

text \<open>
  \<^verbatim>\<open>crypto/rand.Read(b)\<close> either fails or fills the whole buffer. The source is an
  input of the model: a flag saying whether it is unavailable and the bytes it delivers.
\<close>

record RandSource =
  unavailable :: bool
  bytes :: "nat \<Rightarrow> 8 word"

definition rand_Read :: "RandSource \<Rightarrow> nat \<Rightarrow> error + 8 word list" where
  "rand_Read rng n = (if unavailable rng then Inl RandUnavailable else Inr (map (bytes rng) [0..<n]))"

text \<open>
  \<^verbatim>\<open>base64.URLEncoding\<close> of Go's standard library: the URL-safe alphabet of RFC 4648
  with \<^verbatim>\<open>=\<close> padding. Three bytes make a 24-bit value whose four 6-bit groups index
  the alphabet.
\<close>

definition encodeURL :: string where
  "encodeURL = ''ABCDEFGHIJKLMNOPQRSTUVWXYZabcdefghijklmnopqrstuvwxyz0123456789-_''"

definition enc6 :: "int \<Rightarrow> char" where
  "enc6 v = encodeURL ! nat (v mod 64)"

fun EncodeToString :: "8 word list \<Rightarrow> string" where
  "EncodeToString [] = []"
| "EncodeToString [a] =
     (let val = uint a * 65536
      in [enc6 (val div 262144), enc6 (val div 4096), CHR ''='', CHR ''=''])"
| "EncodeToString [a, b] =
     (let val = uint a * 65536 + uint b * 256
      in [enc6 (val div 262144), enc6 (val div 4096), enc6 (val div 64), CHR ''=''])"
| "EncodeToString (a # b # c # rest) =
     (let val = uint a * 65536 + uint b * 256 + uint c
      in [enc6 (val div 262144), enc6 (val div 4096), enc6 (val div 64), enc6 val]
         @ EncodeToString rest)"

text \<open>
  The decoding direction of RFC 4648 for the same alphabet, in its strict form: the text is
  read four characters at a time, every character must be in the alphabet, padding may
  only end the text, and the bits a padded group does not use must be zero. It is not part
  of the program; it says which bytes a token text stands for.
\<close>

definition sextet :: "char \<Rightarrow> int option" where
  "sextet c = map_option int (map_of (zip encodeURL [0..<64]) c)"

definition decodeFull :: "char \<Rightarrow> char \<Rightarrow> char \<Rightarrow> char \<Rightarrow> 8 word list option" where
  "decodeFull c0 c1 c2 c3 =
     Option.bind (sextet c0) (\<lambda>i0. Option.bind (sextet c1) (\<lambda>i1.
     Option.bind (sextet c2) (\<lambda>i2. Option.bind (sextet c3) (\<lambda>i3.
       Some [word_of_int (i0 * 4 + i1 div 16), word_of_int ((i1 mod 16) * 16 + i2 div 4),
             word_of_int ((i2 mod 4) * 64 + i3)]))))"

definition decodeLast :: "char \<Rightarrow> char \<Rightarrow> char \<Rightarrow> 8 word list option" where
  "decodeLast c0 c1 c2 =
     Option.bind (sextet c0) (\<lambda>i0. Option.bind (sextet c1) (\<lambda>i1.
       if c2 = CHR ''='' then
         (if i1 mod 16 = 0 then Some [word_of_int (i0 * 4 + i1 div 16)] else None)
       else Option.bind (sextet c2) (\<lambda>i2.
         if i2 mod 4 = 0
         then Some [word_of_int (i0 * 4 + i1 div 16), word_of_int ((i1 mod 16) * 16 + i2 div 4)]
         else None)))"

fun base64url_decode :: "string \<Rightarrow> 8 word list option" where
  "base64url_decode [] = Some []"
| "base64url_decode (c0 # c1 # c2 # c3 # rest) =
     (if rest = [] \<and> c3 = CHR ''='' then decodeLast c0 c1 c2
      else Option.bind (decodeFull c0 c1 c2 c3) (\<lambda>b3.
           Option.bind (base64url_decode rest) (\<lambda>bs. Some (b3 @ bs))))"
| "base64url_decode _ = None"

subsection \<open>Create, Get, Delete and the sweep\<close>

definition Create ::
  "RandSource \<Rightarrow> Time \<Rightarrow> SessionStore \<Rightarrow> int \<Rightarrow> string \<Rightarrow> int list
     \<Rightarrow> error + (string \<times> SessionStore)" where
  "Create rng now s userID username groupIDs =
     (case rand_Read rng 32 of
        Inl err \<Rightarrow> Inl err
      | Inr token \<Rightarrow>
          (let sessionID = EncodeToString token
           in Inr (sessionID,
                   s(sessionID \<mapsto> \<lparr>UserID = userID, Username = username,
                                    GroupIDs = groupIDs, Expires = now + 24 * Hour\<rparr>))))"

definition Get :: "SessionStore \<Rightarrow> Time \<Rightarrow> string \<Rightarrow> Session option" where
  "Get s now sessionID =
     (case s sessionID of
        None \<Rightarrow> None
      | Some session \<Rightarrow> if Before (Expires session) now then None else Some session)"

definition Delete :: "SessionStore \<Rightarrow> string \<Rightarrow> SessionStore" where
  "Delete s sessionID = s(sessionID := None)"

text \<open>
  One tick of \<^verbatim>\<open>cleanupExpired\<close>: the loop ranges over the map and deletes the expired
  entries. Go leaves the order of a range over a map open, so the order in which the
  keys are produced is an argument; an entry deleted before it is reached is skipped.
\<close>

fun cleanupLoop :: "Time \<Rightarrow> string list \<Rightarrow> SessionStore \<Rightarrow> SessionStore" where
  "cleanupLoop now [] s = s"
| "cleanupLoop now (k # ks) s =
     (case s k of
        None \<Rightarrow> cleanupLoop now ks s
      | Some session \<Rightarrow>
          if Before (Expires session) now then cleanupLoop now ks (Delete s k)
          else cleanupLoop now ks s)"

definition cleanupExpired :: "Time \<Rightarrow> string list \<Rightarrow> SessionStore \<Rightarrow> SessionStore" where
  "cleanupExpired now order s = cleanupLoop now order s"

section \<open>Persistent store (package database)\<close>

record Group =
  Group_ID :: int
  Group_Name :: string

record User =
  User_ID :: int
  User_Username :: string
  User_Password :: string
  User_GroupIDs :: "int list"

record File =
  File_ID :: int
  File_Name :: string
  File_FilePath :: string
  File_GroupID :: int
  File_Description :: string

text \<open>The SQL statements the functions below send, one name for each.\<close>

datatype stmt =
    SelectGroups
  | DeleteFromGroups
  | DeleteFromFiles
  | CountFilesOfGroup
  | SelectUserByUsername
  | SelectUserGroups
  | SelectFileByID
  | CountUserGroup

text \<open>
  The database is its four tables. A row of \<^verbatim>\<open>users\<close> is (id, username,
  password\_hash), a row of \<^verbatim>\<open>user_groups\<close> is (user\_id, group\_id). Every statement
  may come back with an error (a closed handle, an I/O error, a failed scan):
  \<open>failing db st\<close> says that statement \<open>st\<close> does. The data source name carries no
  foreign-key option, so SQLite does not enforce the \<^verbatim>\<open>REFERENCES\<close> clauses of the schema.
  The group ids of a user are read through the primary-key index of \<^verbatim>\<open>user_groups\<close>,
  which yields them in ascending order.
\<close>

record DB =
  groups :: "Group list"
  users :: "(int \<times> string \<times> string) list"
  user_groups :: "(int \<times> int) list"
  files :: "File list"
  failing :: "stmt \<Rightarrow> bool"

definition DeleteGroup :: "DB \<Rightarrow> int \<Rightarrow> error + DB" where
  "DeleteGroup db groupID =
     (if failing db DeleteFromGroups then Inl SqlError
      else Inr (db\<lparr>groups := filter (\<lambda>g. Group_ID g \<noteq> groupID) (groups db)\<rparr>))"

text \<open>
  \<^verbatim>\<open>GetGroupFileCount\<close> returns its local \<^verbatim>\<open>count\<close> together with the error: when the
  scan fails, \<^verbatim>\<open>count\<close> still holds Go's zero value.
\<close>

definition GetGroupFileCount :: "DB \<Rightarrow> int \<Rightarrow> int \<times> error option" where
  "GetGroupFileCount db groupID =
     (if failing db CountFilesOfGroup then (0, Some SqlError)
      else (int (length (filter (\<lambda>f. File_GroupID f = groupID) (files db))), None))"

definition GetUserByUsername :: "DB \<Rightarrow> string \<Rightarrow> error + User" where
  "GetUserByUsername db username =
     (if failing db SelectUserByUsername then Inl SqlError
      else case filter (\<lambda>(i, n, h). n = username) (users db) of
        [] \<Rightarrow> Inl ErrNoRows
      | (i, n, h) # _ \<Rightarrow>
          if failing db SelectUserGroups then Inl SqlError
          else Inr \<lparr>User_ID = i, User_Username = n, User_Password = h,
                    User_GroupIDs = sort (map snd (filter (\<lambda>(u, g). u = i) (user_groups db)))\<rparr>)"

text \<open>
  \<^verbatim>\<open>bcrypt.CompareHashAndPassword\<close> is a library function: \<open>bcrypt h p\<close> says that it
  accepts password \<open>p\<close> for the stored hash \<open>h\<close>.
\<close>

definition ValidateUser ::
  "(string \<Rightarrow> string \<Rightarrow> bool) \<Rightarrow> DB \<Rightarrow> string \<Rightarrow> string \<Rightarrow> error + User" where
  "ValidateUser bcrypt db username password =
     (case GetUserByUsername db username of
        Inl err \<Rightarrow> Inl err
      | Inr user \<Rightarrow>
          if \<not> bcrypt (User_Password user) password then Inl InvalidPassword
          else Inr user)"

definition GetFileByID :: "DB \<Rightarrow> int \<Rightarrow> error + File" where
  "GetFileByID db fileID =
     (if failing db SelectFileByID then Inl SqlError
      else case filter (\<lambda>f. File_ID f = fileID) (files db) of
        [] \<Rightarrow> Inl ErrNoRows
      | f # _ \<Rightarrow> Inr f)"

definition DeleteFile :: "DB \<Rightarrow> int \<Rightarrow> error + DB" where
  "DeleteFile db fileID =
     (if failing db DeleteFromFiles then Inl SqlError
      else Inr (db\<lparr>files := filter (\<lambda>f. File_ID f \<noteq> fileID) (files db)\<rparr>))"

definition UserHasAccessToGroup :: "DB \<Rightarrow> int \<Rightarrow> int \<Rightarrow> error + bool" where
  "UserHasAccessToGroup db userID groupID =
     (if failing db CountUserGroup then Inl SqlError
      else Inr (length (filter (\<lambda>(u, g). u = userID \<and> g = groupID) (user_groups db)) > 0))"

definition GetAllGroups :: "DB \<Rightarrow> error + Group list" where
  "GetAllGroups db =
     (if failing db SelectGroups then Inl SqlError
      else Inr (sort_key Group_Name (groups db)))"

section \<open>Library functions the handlers call\<close>

text \<open>
  \<^verbatim>\<open>strconv.Atoi\<close> of Go's standard library on a 64-bit platform, which is
  \<^verbatim>\<open>ParseInt(s, 10, 0)\<close>: an optional sign, then decimal digits only. It returns a value
  together with the error: 0 with a syntax error, the nearest bound of \<^verbatim>\<open>int\<close> with a range
  error. The scan stops with a range error at the digit where the unsigned value overflows.
\<close>

definition isDigit :: "char \<Rightarrow> bool" where
  "isDigit c = (CHR ''0'' \<le> c \<and> c \<le> CHR ''9'')"

definition maxUint64 :: int where
  "maxUint64 = 18446744073709551615"

fun ParseUintLoop :: "int \<Rightarrow> string \<Rightarrow> int \<times> error option" where
  "ParseUintLoop n [] = (n, None)"
| "ParseUintLoop n (c # cs) =
     (if \<not> isDigit c then (0, Some SyntaxError)
      else if n \<ge> maxUint64 div 10 + 1 then (maxUint64, Some RangeError)
      else if n * 10 + (of_char c - 48) > maxUint64 then (maxUint64, Some RangeError)
      else ParseUintLoop (n * 10 + (of_char c - 48)) cs)"

definition ParseUint :: "string \<Rightarrow> int \<times> error option" where
  "ParseUint s = (if s = [] then (0, Some SyntaxError) else ParseUintLoop 0 s)"

definition Atoi :: "string \<Rightarrow> int \<times> error option" where
  "Atoi s =
     (if s = [] then (0, Some SyntaxError)
      else
        let neg = (hd s = CHR ''-'');
            s' = (if hd s = CHR ''+'' \<or> hd s = CHR ''-'' then tl s else s);
            (un, err) = ParseUint s'
        in if err = Some SyntaxError then (0, Some SyntaxError)
           else if \<not> neg \<and> un \<ge> 2 ^ 63 then (2 ^ 63 - 1, Some RangeError)
           else if neg \<and> un > 2 ^ 63 then (- (2 ^ 63), Some RangeError)
           else (if neg then - un else un, None))"





text \<open>\<^verbatim>\<open>strconv.FormatInt(i, 10)\<close>.\<close>

fun FormatNat :: "nat \<Rightarrow> string" where
  "FormatNat n =
     (if n < 10 then [char_of (48 + n)]
      else FormatNat (n div 10) @ [char_of (48 + n mod 10)])"

declare FormatNat.simps [simp del]

definition FormatInt :: "int \<Rightarrow> string" where
  "FormatInt i = (if i < 0 then CHR ''-'' # FormatNat (nat (- i)) else FormatNat (nat i))"

section \<open>HTTP handlers (package handlers)\<close>

text \<open>
  A request carries its method, the parameters of its URL query and those of its form
  body. \<^verbatim>\<open>r.URL.Query().Get(k)\<close> is the first value of \<open>k\<close> in the query, or the empty
  string; \<^verbatim>\<open>r.FormValue(k)\<close> looks in the body first (for POST, PUT and PATCH), then in
  the query.
\<close>

record Request =
  Method :: string
  URLQuery :: "(string \<times> string) list"
  PostForm :: "(string \<times> string) list"

definition QueryGet :: "Request \<Rightarrow> string \<Rightarrow> string" where
  "QueryGet r k = (case map_of (URLQuery r) k of None \<Rightarrow> [] | Some v \<Rightarrow> v)"

definition FormValue :: "Request \<Rightarrow> string \<Rightarrow> string" where
  "FormValue r k =
     (case map_of ((if Method r \<in> {''POST'', ''PUT'', ''PATCH''} then PostForm r else [])
                   @ URLQuery r) k of
        None \<Rightarrow> []
      | Some v \<Rightarrow> v)"

text \<open>
  What a handler writes: \<^verbatim>\<open>http.Error\<close> with its message and status,
  \<^verbatim>\<open>http.Redirect\<close> with its target and status, a template with its data, or the
  headers and the bytes of a file (status 200).
\<close>

datatype Reply =
    Error string nat
  | Redirect string nat
  | ExecuteTemplate string "(string \<times> string) list"
  | Stream "(string \<times> string) list" "8 word list"

abbreviation StatusOK :: nat where "StatusOK \<equiv> 200"
abbreviation StatusSeeOther :: nat where "StatusSeeOther \<equiv> 303"
abbreviation StatusBadRequest :: nat where "StatusBadRequest \<equiv> 400"
abbreviation StatusForbidden :: nat where "StatusForbidden \<equiv> 403"
abbreviation StatusNotFound :: nat where "StatusNotFound \<equiv> 404"
abbreviation StatusMethodNotAllowed :: nat where "StatusMethodNotAllowed \<equiv> 405"
abbreviation StatusInternalServerError :: nat where "StatusInternalServerError \<equiv> 500"

definition statusOf :: "Reply \<Rightarrow> nat" where
  "statusOf rep = (case rep of
       Error msg code \<Rightarrow> code
     | Redirect url code \<Rightarrow> code
     | ExecuteTemplate name data \<Rightarrow> StatusOK
     | Stream hdrs body \<Rightarrow> StatusOK)"

record Cookie =
  Cookie_Name :: string
  Cookie_Value :: string
  Cookie_Path :: string
  Cookie_HttpOnly :: bool
  Cookie_MaxAge :: int
  Cookie_SameSiteStrict :: bool

definition SetSessionCookie :: "string \<Rightarrow> Cookie" where
  "SetSessionCookie sessionID =
     \<lparr>Cookie_Name = ''session_id'', Cookie_Value = sessionID, Cookie_Path = ''/'',
      Cookie_HttpOnly = True, Cookie_MaxAge = 86400, Cookie_SameSiteStrict = True\<rparr>"

subsection \<open>Login\<close>

definition Login ::
  "(string \<Rightarrow> string \<Rightarrow> bool) \<Rightarrow> DB \<Rightarrow> RandSource \<Rightarrow> Time \<Rightarrow> SessionStore \<Rightarrow> Request
     \<Rightarrow> (Cookie option \<times> Reply) \<times> SessionStore" where
  "Login bcrypt db rng now sessions r =
     (if Method r \<noteq> ''POST'' then ((None, Error ''Method not allowed'' StatusMethodNotAllowed), sessions)
      else
        let username = FormValue r ''username'';
            password = FormValue r ''password''
        in case ValidateUser bcrypt db username password of
             Inl err \<Rightarrow>
               ((None, ExecuteTemplate ''login.html'' [(''Error'', ''Invalid credentials'')]), sessions)
           | Inr user \<Rightarrow>
               (case Create rng now sessions (User_ID user) (User_Username user) (User_GroupIDs user) of
                  Inl err \<Rightarrow>
                    ((None, Error ''Failed to create session'' StatusInternalServerError), sessions)
                | Inr (sessionID, sessions') \<Rightarrow>
                    ((Some (SetSessionCookie sessionID), Redirect ''/files'' StatusSeeOther),
                     sessions')))"

subsection \<open>isAdmin\<close>

fun isAdmin_groups :: "int \<Rightarrow> Group list \<Rightarrow> bool" where
  "isAdmin_groups groupID [] = False"
| "isAdmin_groups groupID (g # gs) =
     (if Group_ID g = groupID \<and> Group_Name g = ''admins'' then True
      else isAdmin_groups groupID gs)"

fun isAdmin_ids :: "int list \<Rightarrow> Group list \<Rightarrow> bool" where
  "isAdmin_ids [] gs = False"
| "isAdmin_ids (groupID # ids) gs =
     (if isAdmin_groups groupID gs then True else isAdmin_ids ids gs)"

definition isAdmin :: "DB \<Rightarrow> Session \<Rightarrow> bool" where
  "isAdmin db session =
     (case GetAllGroups db of
        Inl err \<Rightarrow> False
      | Inr gs \<Rightarrow> isAdmin_ids (GroupIDs session) gs)"

subsection \<open>DownloadFile\<close>

text \<open>
  The file system as the handler sees it: \<^verbatim>\<open>os.Open\<close> of a path fails or gives a
  handle; \<^verbatim>\<open>f.Stat\<close> on the handle fails or gives a size; \<^verbatim>\<open>io.Copy\<close> reads the handle
  until the end of the file or a read error, and \<open>ReadBytes\<close> are the bytes it gets. The
  two need not agree: a directory opens and has a size, and reading it fails at once.
\<close>

record OpenedFile =
  StatSize :: "error + int"
  ReadBytes :: "8 word list"

type_synonym FS = "string \<Rightarrow> error + OpenedFile"

text \<open>The calls a handler makes outside the process, in the order it makes them.\<close>

datatype Event = Query stmt | Open string | Stat string | Copy string

text \<open>
  \<open>escapeBase\<close> stands for \<^verbatim>\<open>url.PathEscape(filepath.Base(name))\<close>, two functions of the
  standard library. The session comes from the request context, where the middleware put
  it. The result is the reply and the calls made; what is written to the log is left out.
  The handler drops the error of \<^verbatim>\<open>io.Copy\<close>, so the body is whatever was read.
\<close>

definition DownloadFile ::
  "(string \<Rightarrow> string) \<Rightarrow> DB \<Rightarrow> FS \<Rightarrow> Session \<Rightarrow> Request \<Rightarrow> Reply \<times> Event list" where
  "DownloadFile escapeBase db fs session r =
     (let fileIDStr = QueryGet r ''id'';
          (fileID, err) = Atoi fileIDStr
      in if err \<noteq> None then (Error ''Invalid file ID'' StatusBadRequest, [])
         else case GetFileByID db fileID of
           Inl err \<Rightarrow> (Error ''File not found'' StatusNotFound, [Query SelectFileByID])
         | Inr file \<Rightarrow>
             (case UserHasAccessToGroup db (UserID session) (File_GroupID file) of
                Inl err \<Rightarrow>
                  (Error ''Failed to check access'' StatusInternalServerError,
                   [Query SelectFileByID, Query CountUserGroup])
              | Inr hasAccess \<Rightarrow>
                  if \<not> hasAccess then
                    (Error ''Access denied'' StatusForbidden,
                     [Query SelectFileByID, Query CountUserGroup])
                  else (case fs (File_FilePath file) of
                    Inl err \<Rightarrow>
                      (Error ''File not accessible'' StatusInternalServerError,
                       [Query SelectFileByID, Query CountUserGroup, Open (File_FilePath file)])
                  | Inr f \<Rightarrow>
                      (case StatSize f of
                         Inl err \<Rightarrow>
                           (Error ''Failed to read file info'' StatusInternalServerError,
                            [Query SelectFileByID, Query CountUserGroup,
                             Open (File_FilePath file), Stat (File_FilePath file)])
                       | Inr sz \<Rightarrow>
                           (Stream
                              [(''Content-Disposition'',
                                (''attachment; filename*=UTF-8'' @ ([CHR 0x27, CHR 0x27]
                                  @ escapeBase (File_Name file)))),
                               (''Content-Type'', ''application/octet-stream''),
                               (''Content-Length'', FormatInt sz)]
                              (ReadBytes f),
                            [Query SelectFileByID, Query CountUserGroup,
                             Open (File_FilePath file), Stat (File_FilePath file),
                             Copy (File_FilePath file)])))))"

subsection \<open>AdminDeleteGroup\<close>

text \<open>Both \<^verbatim>\<open>strconv.Atoi\<close> and \<^verbatim>\<open>GetGroupFileCount\<close> are called with their error dropped.\<close>

definition AdminDeleteGroup :: "DB \<Rightarrow> Session \<Rightarrow> Request \<Rightarrow> Reply \<times> DB" where
  "AdminDeleteGroup db session r =
     (if Method r \<noteq> ''POST'' then (Error ''Method not allowed'' StatusMethodNotAllowed, db)
      else if \<not> isAdmin db session then (Error ''Access denied'' StatusForbidden, db)
      else
        let groupID = fst (Atoi (FormValue r ''id''));
            fileCount = fst (GetGroupFileCount db groupID)
        in if fileCount > 0 then
             (Redirect ''/admin/groups?error=Cannot+delete+group+with+files+assigned'' StatusSeeOther,
              db)
           else case DeleteGroup db groupID of
             Inl err \<Rightarrow>
               (Redirect ''/admin/groups?error=Failed+to+delete+group'' StatusSeeOther, db)
           | Inr db' \<Rightarrow>
               (Redirect ''/admin/groups?success=Group+deleted+successfully'' StatusSeeOther, db'))"

section \<open>Example data\<close>

text \<open>
  A random source that delivers zero bytes, and a store holding one session that expires
  at instant 5 and one that expires at instant 20.
\<close>

definition ex_rng :: RandSource where
  "ex_rng = \<lparr>unavailable = False, bytes = (\<lambda>i. 0)\<rparr>"

definition ex_token :: string where
  "ex_token = ''AAAAAAAAAAAAAAAAAAAAAAAAAAAAAAAAAAAAAAAAAAA=''"

text \<open>A random source whose byte \<open>i\<close> is \<open>7 i + 250\<close> modulo 256, and the text of its first 32 bytes.\<close>

definition ex_rng_steps :: RandSource where
  "ex_rng_steps = \<lparr>unavailable = False, bytes = (\<lambda>i. of_nat (i * 7 + 250))\<rparr>"

definition ex_token_steps :: string where
  "ex_token_steps = ''-gEIDxYdJCsyOUBHTlVcY2pxeH-GjZSboqmwt77FzNM=''"

definition ex_old :: Session where
  "ex_old = \<lparr>UserID = 2, Username = ''user1'', GroupIDs = [2], Expires = 5\<rparr>"

definition ex_new :: Session where
  "ex_new = \<lparr>UserID = 1, Username = ''admin'', GroupIDs = [1], Expires = 20\<rparr>"

definition ex_sessions :: SessionStore where
  "ex_sessions = NewSessionStore(''old'' \<mapsto> ex_old, ''new'' \<mapsto> ex_new)"

text \<open>
  The data of the README: the groups \<^verbatim>\<open>admins\<close> and \<^verbatim>\<open>users\<close>, the users \<^verbatim>\<open>admin\<close>,
  \<^verbatim>\<open>user1\<close> and \<^verbatim>\<open>user2\<close>, and one file owned by group 2. \<open>ex_bcrypt\<close> accepts a
  password for the hash that is the password behind a fixed prefix.
\<close>

definition ex_file :: File where
  "ex_file = \<lparr>File_ID = 1, File_Name = ''world.wld'', File_FilePath = ''/srv/world.wld'',
              File_GroupID = 2, File_Description = ''backup''\<rparr>"

definition ex_db :: DB where
  "ex_db =
     \<lparr>groups = [\<lparr>Group_ID = 1, Group_Name = ''admins''\<rparr>,
                \<lparr>Group_ID = 2, Group_Name = ''users''\<rparr>],
      users = [(1, ''admin'', ''hash:admin''), (2, ''user1'', ''hash:password''),
               (3, ''user2'', ''hash:password'')],
      user_groups = [(1, 1), (2, 2), (3, 2), (3, 1)],
      files = [ex_file],
      failing = (\<lambda>st. False)\<rparr>"

definition ex_bcrypt :: "string \<Rightarrow> string \<Rightarrow> bool" where
  "ex_bcrypt h p = (h = ''hash:'' @ p)"

definition ex_login_unknown :: Request where
  "ex_login_unknown =
     \<lparr>Method = ''POST'', URLQuery = [],
      PostForm = [(''username'', ''ghost''), (''password'', ''admin'')]\<rparr>"

definition ex_login_wrong :: Request where
  "ex_login_wrong =
     \<lparr>Method = ''POST'', URLQuery = [],
      PostForm = [(''username'', ''admin''), (''password'', ''letmein'')]\<rparr>"

definition ex_absent_group :: Session where
  "ex_absent_group = \<lparr>UserID = 4, Username = ''user3'', GroupIDs = [99], Expires = 20\<rparr>"

text \<open>
  A file system with a regular file of three bytes and a directory, which opens and has a
  size but gives no bytes when read; and the database whose only file record stores the
  path of the directory.
\<close>

definition ex_world :: OpenedFile where
  "ex_world = \<lparr>StatSize = Inr 3, ReadBytes = [1, 2, 3]\<rparr>"

definition ex_dir :: OpenedFile where
  "ex_dir = \<lparr>StatSize = Inr 4096, ReadBytes = []\<rparr>"

definition ex_fs :: FS where
  "ex_fs = (\<lambda>p. if p = ''/srv/world.wld'' then Inr ex_world
                 else if p = ''/srv'' then Inr ex_dir
                 else Inl PathError)"



definition ex_escapeBase :: "string \<Rightarrow> string" where
  "ex_escapeBase name = name"

definition ex_download :: Request where
  "ex_download = \<lparr>Method = ''GET'', URLQuery = [(''id'', ''1'')], PostForm = []\<rparr>"


text \<open>The same database after \<^verbatim>\<open>user1\<close> left group 2, and after \<^verbatim>\<open>admin\<close> joined it.\<close>

definition ex_db_revoked :: DB where
  "ex_db_revoked = ex_db\<lparr>user_groups := [(1, 1), (3, 2), (3, 1)]\<rparr>"

definition ex_db_granted :: DB where
  "ex_db_granted = ex_db\<lparr>user_groups := [(1, 1), (1, 2), (2, 2), (3, 2), (3, 1)]\<rparr>"

text \<open>The same database when one of its statements fails.\<close>

definition ex_db_groups_fail :: DB where
  "ex_db_groups_fail = ex_db\<lparr>failing := (\<lambda>st. st = SelectGroups)\<rparr>"



text \<open>An admin's request to delete group 2, and the databases it meets.\<close>

definition ex_delete_group :: Request where
  "ex_delete_group = \<lparr>Method = ''POST'', URLQuery = [], PostForm = [(''id'', ''2'')]\<rparr>"

definition ex_db_nofiles :: DB where
  "ex_db_nofiles = ex_db\<lparr>files := []\<rparr>"

definition ex_db_count_fails :: DB where
  "ex_db_count_fails = ex_db\<lparr>failing := (\<lambda>st. st = CountFilesOfGroup)\<rparr>"

definition ex_db_delete_fails :: DB where
  "ex_db_delete_fails = ex_db_nofiles\<lparr>failing := (\<lambda>st. st = DeleteFromGroups)\<rparr>"

section \<open>Properties of the session store\<close>

lemma Get_Delete: "Get (Delete s sessionID) now sessionID = None"
  by (simp add: Get_def Delete_def)

lemma Delete_twice: "Delete (Delete s sessionID) sessionID = Delete s sessionID"
  by (simp add: Delete_def)

lemma Delete_absent: "s sessionID = None \<Longrightarrow> Delete s sessionID = s"
  by (auto simp: Delete_def)

text \<open>
  C5. \<^verbatim>\<open>Delete\<close> returns a store for every token and has no error result; a \<^verbatim>\<open>Get\<close> of
  the token right after it finds nothing, whatever the store held and whatever the time;
  a second \<^verbatim>\<open>Delete\<close> of the same token leaves the store as the first one did; on a token
  the store does not hold it changes nothing.
\<close>

theorem Delete_idempotent:
  "Get (Delete s sessionID) now sessionID = None
   \<and> Delete (Delete s sessionID) sessionID = Delete s sessionID
   \<and> (s sessionID = None \<longrightarrow> Delete s sessionID = s)"
  by (simp add: Get_Delete Delete_twice Delete_absent)

theorem Delete_idempotent_witness:
  "ex_sessions ''gone'' = None
   \<and> Get (Delete ex_sessions ''gone'') 7 ''gone'' = None
   \<and> Delete (Delete ex_sessions ''gone'') ''gone'' = Delete ex_sessions ''gone''
   \<and> Delete ex_sessions ''gone'' = ex_sessions"
proof -
  have h: "ex_sessions ''gone'' = None"
    by (simp add: ex_sessions_def NewSessionStore_def)
  from Delete_idempotent [of ex_sessions "''gone''" 7] h show ?thesis
    by blast
qed

subsection \<open>The sweep\<close>

lemma cleanupLoop_lookup:
  "cleanupLoop now ks s t =
     (case s t of
        None \<Rightarrow> None
      | Some session \<Rightarrow>
          if t \<in> set ks \<and> Before (Expires session) now then None else Some session)"
  by (induction ks arbitrary: s) (auto simp: Delete_def split: option.splits)

text \<open>
  C9. One pass of the sweep, ranging over the keys of the store in any order, removes
  the sessions whose expiry lies before the instant of the scan and no other; every
  other entry is the same session under the same token as before.
\<close>

theorem cleanupExpired_exact:
  assumes "set order = dom s"
  shows "(\<forall>t session. s t = Some session \<and> Expires session < now
            \<longrightarrow> cleanupExpired now order s t = None)
       \<and> (\<forall>t session. s t = Some session \<and> \<not> Expires session < now
            \<longrightarrow> cleanupExpired now order s t = Some session)
       \<and> (\<forall>t. s t = None \<longrightarrow> cleanupExpired now order s t = None)"
proof -
  have mem: "t \<in> set order" if "s t = Some session" for t session
    using that assms by auto
  show ?thesis
    by (auto simp: cleanupExpired_def cleanupLoop_lookup Before_def mem)
qed

theorem cleanupExpired_exact_witness:
  "set [''new'', ''old''] = dom ex_sessions
   \<and> cleanupExpired 10 [''new'', ''old''] ex_sessions ''old'' = None
   \<and> cleanupExpired 10 [''new'', ''old''] ex_sessions ''new'' = Some ex_new
   \<and> cleanupExpired 10 [''new'', ''old''] ex_sessions ''gone'' = None"
proof -
  have h: "set [''new'', ''old''] = dom ex_sessions"
    by (auto simp: ex_sessions_def NewSessionStore_def)
  have old: "ex_sessions ''old'' = Some ex_old \<and> Expires ex_old < 10"
    by (simp add: ex_sessions_def ex_old_def)
  have new: "ex_sessions ''new'' = Some ex_new \<and> \<not> Expires ex_new < 10"
    by (simp add: ex_sessions_def ex_new_def)
  have gone: "ex_sessions ''gone'' = None"
    by (simp add: ex_sessions_def NewSessionStore_def)
  from cleanupExpired_exact [OF h, of 10] old new gone h show ?thesis
    by blast
qed

subsection \<open>Creating a session and resolving its token\<close>

lemma length_EncodeToString: "length (EncodeToString bs) = 4 * ((length bs + 2) div 3)"
proof (induction bs rule: EncodeToString.induct)
  case (4 a b c rest)
  then show ?case by (simp add: Let_def) arith
qed (simp_all add: Let_def)

lemma enc6_in_alphabet: "enc6 v \<in> set encodeURL"
proof -
  have "nat (v mod 64) < length encodeURL"
    by (simp add: encodeURL_def nat_less_iff)
  then show ?thesis
    unfolding enc6_def by (rule nth_mem)
qed

lemma EncodeToString_alphabet: "set (EncodeToString bs) \<subseteq> set encodeURL \<union> {CHR ''=''}"
  by (induction bs rule: EncodeToString.induct) (simp_all add: Let_def enc6_in_alphabet)

lemma distinct_encodeURL: "distinct encodeURL"
  by (simp add: encodeURL_def)

lemma length_encodeURL: "length encodeURL = 64"
  by (simp add: encodeURL_def)

lemma sextet_enc6: "sextet (enc6 v) = Some (v mod 64)"
proof -
  have i: "nat (v mod 64) < 64" by (simp add: nat_less_iff)
  have "map_of (zip encodeURL [0..<64]) (encodeURL ! nat (v mod 64)) = Some ([0..<64] ! nat (v mod 64))"
    by (rule map_of_zip_nth) (use i in \<open>simp_all add: length_encodeURL distinct_encodeURL\<close>)
  with i show ?thesis by (simp add: sextet_def enc6_def)
qed

lemma enc6_not_pad: "enc6 v \<noteq> CHR ''=''"
proof -
  have "enc6 v \<in> set encodeURL"
    unfolding enc6_def by (rule nth_mem) (simp add: length_encodeURL nat_less_iff)
  moreover have "CHR ''='' \<notin> set encodeURL" by (simp add: encodeURL_def)
  ultimately show ?thesis by metis
qed

lemma byte_range: "0 \<le> uint (a :: 8 word) \<and> uint a < 256"
  using uint_bounded [of a] by simp


lemma sextets_of_block:
  fixes a b c :: int
  assumes "0 \<le> a" "a < 256" "0 \<le> b" "b < 256" "0 \<le> c" "c < 256"
  shows "((a * 65536 + b * 256 + c) div 262144) mod 64 = a div 4"
    and "((a * 65536 + b * 256 + c) div 4096) mod 64 = (a mod 4) * 16 + b div 16"
    and "((a * 65536 + b * 256 + c) div 64) mod 64 = (b mod 16) * 4 + c div 64"
    and "(a * 65536 + b * 256 + c) mod 64 = c mod 64"
proof -
  define a1 a0 b1 b0 c1 c0
    where "a1 = a div 4" and "a0 = a mod 4" and "b1 = b div 16" and "b0 = b mod 16"
      and "c1 = c div 64" and "c0 = c mod 64"
  have a: "a = 4 * a1 + a0" and a0: "0 \<le> a0" "a0 < 4"
    by (simp_all add: a1_def a0_def)
  have b: "b = 16 * b1 + b0" and b0: "0 \<le> b0" "b0 < 16"
    by (simp_all add: b1_def b0_def)
  have c: "c = 64 * c1 + c0" and c0: "0 \<le> c0" "c0 < 64"
    by (simp_all add: c1_def c0_def)
  have a1: "0 \<le> a1" "a1 < 64"
    using assms a a0 by linarith+
  have b1: "0 \<le> b1" "b1 < 16"
    using assms b b0 by linarith+
  have c1: "0 \<le> c1" "c1 < 4"
    using assms c c0 by linarith+
  let ?v = "a * 65536 + b * 256 + c"
  have q0: "?v div 262144 = a1"
  proof (rule int_div_pos_eq [where r = "a0 * 65536 + b * 256 + c"])
    show "?v = 262144 * a1 + (a0 * 65536 + b * 256 + c)"
      by (simp add: a)
    show "0 \<le> a0 * 65536 + b * 256 + c" "a0 * 65536 + b * 256 + c < 262144"
      using a0 assms by linarith+
  qed
  have q1: "?v div 4096 = a * 16 + b1"
  proof (rule int_div_pos_eq [where r = "b0 * 256 + c"])
    show "?v = 4096 * (a * 16 + b1) + (b0 * 256 + c)"
      by (simp add: b)
    show "0 \<le> b0 * 256 + c" "b0 * 256 + c < 4096"
      using b0 assms by linarith+
  qed
  have q2: "?v div 64 = a * 1024 + b * 4 + c1"
  proof (rule int_div_pos_eq [where r = c0])
    show "?v = 64 * (a * 1024 + b * 4 + c1) + c0"
      by (simp add: c)
  qed (use c0 in simp_all)
  show "(?v div 262144) mod 64 = a div 4"
    unfolding q0 using a1 by (simp add: a1_def)
  have "(a * 16 + b1) mod 64 = a0 * 16 + b1"
  proof (rule int_mod_pos_eq [where q = a1])
    show "a * 16 + b1 = 64 * a1 + (a0 * 16 + b1)"
      by (simp add: a)
    show "0 \<le> a0 * 16 + b1" "a0 * 16 + b1 < 64"
      using a0 b1 by linarith+
  qed
  then show "(?v div 4096) mod 64 = (a mod 4) * 16 + b div 16"
    unfolding q1 by (simp add: a0_def b1_def)
  have "(a * 1024 + b * 4 + c1) mod 64 = b0 * 4 + c1"
  proof (rule int_mod_pos_eq [where q = "a * 16 + b1"])
    show "a * 1024 + b * 4 + c1 = 64 * (a * 16 + b1) + (b0 * 4 + c1)"
      by (simp add: b)
    show "0 \<le> b0 * 4 + c1" "b0 * 4 + c1 < 64"
      using b0 c1 by linarith+
  qed
  then show "(?v div 64) mod 64 = (b mod 16) * 4 + c div 64"
    unfolding q2 by (simp add: b0_def c1_def)
  have "?v mod 64 = c0"
  proof (rule int_mod_pos_eq [where q = "a * 1024 + b * 4 + c1"])
    show "?v = 64 * (a * 1024 + b * 4 + c1) + c0"
      by (simp add: c)
  qed (use c0 in simp_all)
  then show "?v mod 64 = c mod 64"
    by (simp add: c0_def)
qed

lemma rejoin4: "(a div 4) * 4 + ((a mod 4) * 16 + b div 16) div 16 = (a::int)"
  if "0 \<le> b" "b < 256" for a b :: int
proof -
  have "0 \<le> b div 16" "b div 16 < 16"
    using that by (simp_all add: pos_imp_zdiv_nonneg_iff div_less_iff_less_mult)
  then have "((a mod 4) * 16 + b div 16) div 16 = a mod 4"
    by (intro int_div_pos_eq [where r = "b div 16"]) simp_all
  then show ?thesis by simp
qed


lemma rejoin_div: "(x * k + y) div k = x" "(x * k + y) mod k = y"
  if "0 \<le> y" "y < k" for x y k :: int
proof -
  have e: "x * k + y = k * x + y"
    by simp
  show "(x * k + y) div k = x"
    using e that by (rule int_div_pos_eq)
  show "(x * k + y) mod k = y"
    using e that by (rule int_mod_pos_eq)
qed

lemma nibbles: "0 \<le> b div 16" "b div 16 < 16" "0 \<le> b mod 16" "b mod 16 < 16"
  if "0 \<le> b" "b < 256" for b :: int
  using that by (simp_all add: pos_imp_zdiv_nonneg_iff div_less_iff_less_mult)

lemma quarters: "0 \<le> c div 64" "c div 64 < 4" "0 \<le> c mod 64" "c mod 64 < 64"
  if "0 \<le> c" "c < 256" for c :: int
  using that by (simp_all add: pos_imp_zdiv_nonneg_iff div_less_iff_less_mult)

lemma decode_bytes:
  fixes a b c :: int
  assumes "0 \<le> b" "b < 256" "0 \<le> c" "c < 256"
  shows "(a div 4) * 4 + ((a mod 4) * 16 + b div 16) div 16 = a"
    and "(((a mod 4) * 16 + b div 16) mod 16) * 16 + ((b mod 16) * 4 + c div 64) div 4 = b"
    and "(((b mod 16) * 4 + c div 64) mod 4) * 64 + c mod 64 = c"
  using assms
  by (simp_all add: rejoin_div nibbles quarters)

lemma decodeFull_enc:
  fixes a b c :: "8 word"
  defines "v \<equiv> uint a * 65536 + uint b * 256 + uint c"
  shows "decodeFull (enc6 (v div 262144)) (enc6 (v div 4096)) (enc6 (v div 64)) (enc6 v)
           = Some [a, b, c]"
proof -
  have ra: "0 \<le> uint a" "uint a < 256" and rb: "0 \<le> uint b" "uint b < 256"
    and rc: "0 \<le> uint c" "uint c < 256"
    using byte_range [of a] byte_range [of b] byte_range [of c] by simp_all
  note s = sextets_of_block [OF ra rb rc, folded v_def]
  note d = decode_bytes [OF rb rc]
  have "decodeFull (enc6 (v div 262144)) (enc6 (v div 4096)) (enc6 (v div 64)) (enc6 v)
      = Some [word_of_int (uint a), word_of_int (uint b), word_of_int (uint c)]"
    unfolding decodeFull_def sextet_enc6 Option.bind_lunit s d ..
  then show ?thesis
    by simp
qed


lemma decodeLast_enc2:
  fixes a b :: "8 word"
  defines "v \<equiv> uint a * 65536 + uint b * 256"
  shows "decodeLast (enc6 (v div 262144)) (enc6 (v div 4096)) (enc6 (v div 64)) = Some [a, b]"
proof -
  define w where "w = uint a * 65536 + uint b * 256 + uint (0::8 word)"
  have vw: "v = w"
    by (simp add: v_def w_def)
  have ra: "0 \<le> uint a" "uint a < 256" and rb: "0 \<le> uint b" "uint b < 256"
    and rc: "0 \<le> uint (0::8 word)" "uint (0::8 word) < 256"
    using byte_range [of a] byte_range [of b] by simp_all
  note s = sextets_of_block [OF ra rb rc, folded w_def]
  note d = decode_bytes [OF rb rc]
  have "decodeLast (enc6 (w div 262144)) (enc6 (w div 4096)) (enc6 (w div 64))
      = (if enc6 (w div 64) = CHR ''=''
         then (if (uint a mod 4 * 16 + uint b div 16) mod 16 = 0
               then Some [word_of_int (uint a)] else None)
         else (if (uint b mod 16 * 4 + uint (0::8 word) div 64) mod 4 = 0
               then Some [word_of_int (uint a), word_of_int (uint b)] else None))"
    unfolding decodeLast_def sextet_enc6 Option.bind_lunit s d ..
  then show ?thesis
    unfolding vw by (simp add: enc6_not_pad)
qed

lemma decodeLast_enc1:
  fixes a :: "8 word"
  defines "v \<equiv> uint a * 65536"
  shows "decodeLast (enc6 (v div 262144)) (enc6 (v div 4096)) (CHR ''='') = Some [a]"
proof -
  define w where "w = uint a * 65536 + uint (0::8 word) * 256 + uint (0::8 word)"
  have vw: "v = w"
    by (simp add: v_def w_def)
  have ra: "0 \<le> uint a" "uint a < 256"
    and rc: "0 \<le> uint (0::8 word)" "uint (0::8 word) < 256"
    using byte_range [of a] by simp_all
  note s = sextets_of_block [OF ra rc rc, folded w_def]
  note d = decode_bytes [OF rc rc]
  have "decodeLast (enc6 (w div 262144)) (enc6 (w div 4096)) (CHR ''='')
      = (if CHR ''='' = CHR ''=''
         then (if (uint a mod 4 * 16 + uint (0::8 word) div 16) mod 16 = 0
               then Some [word_of_int (uint a)] else None)
         else Option.bind (sextet CHR ''='')
            (\<lambda>i2. if i2 mod 4 = 0
                  then Some [word_of_int (uint a),
                             word_of_int ((uint a mod 4 * 16 + uint (0::8 word) div 16) mod 16 * 16
                                          + i2 div 4)]
                  else None))"
    unfolding decodeLast_def sextet_enc6 Option.bind_lunit s d ..
  then show ?thesis
    unfolding vw by simp
qed

lemma decode_last_quad: "base64url_decode [c0, c1, c2, CHR ''=''] = decodeLast c0 c1 c2"
  by simp

lemma decode_full_quad:
  "c3 \<noteq> CHR ''='' \<Longrightarrow>
   base64url_decode (c0 # c1 # c2 # c3 # rest) =
     Option.bind (decodeFull c0 c1 c2 c3) (\<lambda>b3.
     Option.bind (base64url_decode rest) (\<lambda>bs. Some (b3 @ bs)))"
  by simp

lemma decode_EncodeToString: "base64url_decode (EncodeToString bs) = Some bs"
proof (induction bs rule: EncodeToString.induct)
  case 1
  show ?case by simp
next
  case (2 a)
  have "EncodeToString [a] =
      [enc6 ((uint a * 65536) div 262144), enc6 ((uint a * 65536) div 4096),
       CHR ''='', CHR ''='']"
    by (simp only: EncodeToString.simps Let_def)
  then show ?case
    by (simp only: decode_last_quad decodeLast_enc1)
next
  case (3 a b)
  have "EncodeToString [a, b] =
      [enc6 ((uint a * 65536 + uint b * 256) div 262144),
       enc6 ((uint a * 65536 + uint b * 256) div 4096),
       enc6 ((uint a * 65536 + uint b * 256) div 64), CHR ''='']"
    by (simp only: EncodeToString.simps Let_def)
  then show ?case
    by (simp only: decode_last_quad decodeLast_enc2)
next
  case (4 a b c rest)
  have "EncodeToString (a # b # c # rest) =
      enc6 ((uint a * 65536 + uint b * 256 + uint c) div 262144)
      # enc6 ((uint a * 65536 + uint b * 256 + uint c) div 4096)
      # enc6 ((uint a * 65536 + uint b * 256 + uint c) div 64)
      # enc6 (uint a * 65536 + uint b * 256 + uint c) # EncodeToString rest"
    by (simp only: EncodeToString.simps Let_def append.simps)
  then show ?case
    by (simp only: decode_full_quad [OF enc6_not_pad] decodeFull_enc "4.IH"
          Option.bind_lunit append.simps)
qed

lemma EncodeToString_inj: "EncodeToString xs = EncodeToString ys \<Longrightarrow> xs = ys"
  by (metis decode_EncodeToString option.inject)

lemma ex_rng_steps_bytes:
  "map (bytes ex_rng_steps) [0..<32] =
     [250, 1, 8, 15, 22, 29, 36, 43, 50, 57, 64, 71, 78, 85, 92, 99, 106, 113, 120, 127, 134,
      141, 148, 155, 162, 169, 176, 183, 190, 197, 204, 211]"
  by code_simp

lemma EncodeToString_steps:
  "EncodeToString
     [250, 1, 8, 15, 22, 29, 36, 43, 50, 57, 64, 71, 78, 85, 92, 99, 106, 113, 120, 127, 134,
      141, 148, 155, 162, 169, 176, 183, 190, 197, 204, 211] = ex_token_steps"
  by code_simp

lemma rand_Read_ok:
  "\<not> unavailable rng \<Longrightarrow> rand_Read rng n = Inr (map (bytes rng) [0..<n])"
  by (simp add: rand_Read_def)

lemma Create_ok:
  "\<not> unavailable rng \<Longrightarrow>
   Create rng now s userID username groupIDs =
     Inr (EncodeToString (map (bytes rng) [0..<32]),
          s(EncodeToString (map (bytes rng) [0..<32]) \<mapsto>
             \<lparr>UserID = userID, Username = username, GroupIDs = groupIDs,
              Expires = now + 24 * Hour\<rparr>))"
  by (simp add: Create_def rand_Read_ok Let_def)

lemma Create_fails:
  "unavailable rng \<Longrightarrow> Create rng now s userID username groupIDs = Inl RandUnavailable"
  by (simp add: Create_def rand_Read_def)

lemma EncodeToString_zeros: "EncodeToString (replicate 32 0) = ex_token"
  by code_simp

lemma Create_ex_rng:
  "Create ex_rng now s userID username groupIDs =
     Inr (ex_token,
          s(ex_token \<mapsto> \<lparr>UserID = userID, Username = username, GroupIDs = groupIDs,
                          Expires = now + 86400000000000\<rparr>))"
proof -
  have r: "rand_Read ex_rng 32 = Inr (replicate 32 0)"
    by (simp add: rand_Read_def ex_rng_def map_replicate_const)
  show ?thesis
    by (simp add: Create_def r EncodeToString_zeros Hour_def Let_def)
qed

text \<open>
  C6. \<^verbatim>\<open>Create\<close> fails exactly when the random source is unavailable, and then with
  that error. Otherwise its token is the base64url text of the 32 bytes, that is 256 bits,
  the source delivered: 44 characters of the URL-safe alphabet and the padding sign, from
  which decoding by RFC 4648 gives the 32 bytes back, so that no other byte string has
  the same text. The store then holds under that token a session for the given user whose
  expiry is the instant of creation plus 24 hours (86400 seconds). That the source is
  cryptographically secure is a property of \<^verbatim>\<open>crypto/rand\<close>, which is an input here.
\<close>

theorem Create_token_expiry:
  "(unavailable rng \<longrightarrow> Create rng now s userID username groupIDs = Inl RandUnavailable)
   \<and> (\<not> unavailable rng \<longrightarrow>
        (\<exists>token.
           8 * length token = 256
           \<and> (\<forall>i<32. token ! i = bytes rng i)
           \<and> length (EncodeToString token) = 44
           \<and> set (EncodeToString token) \<subseteq> set encodeURL \<union> {CHR ''=''}
           \<and> base64url_decode (EncodeToString token) = Some token
           \<and> (\<forall>other. EncodeToString other = EncodeToString token \<longrightarrow> other = token)
           \<and> Create rng now s userID username groupIDs =
               Inr (EncodeToString token,
                    s(EncodeToString token \<mapsto>
                        \<lparr>UserID = userID, Username = username, GroupIDs = groupIDs,
                         Expires = now + 86400 * 1000000000\<rparr>))))"
proof (intro conjI impI)
  assume "unavailable rng"
  then show "Create rng now s userID username groupIDs = Inl RandUnavailable"
    by (rule Create_fails)
next
  assume ok: "\<not> unavailable rng"
  let ?token = "map (bytes rng) [0..<32]"
  have len: "8 * length ?token = 256"
    by simp
  have nth: "\<forall>i<32. ?token ! i = bytes rng i"
    by simp
  have len44: "length (EncodeToString ?token) = 44"
    by (simp add: length_EncodeToString)
  have dec: "base64url_decode (EncodeToString ?token) = Some ?token"
    by (rule decode_EncodeToString)
  have inj: "\<forall>other. EncodeToString other = EncodeToString ?token \<longrightarrow> other = ?token"
    using EncodeToString_inj by blast
  have cr: "Create rng now s userID username groupIDs =
      Inr (EncodeToString ?token,
           s(EncodeToString ?token \<mapsto>
               \<lparr>UserID = userID, Username = username, GroupIDs = groupIDs,
                Expires = now + 86400 * 1000000000\<rparr>))"
    using Create_ok [OF ok, of now s userID username groupIDs] by (simp add: Hour_def)
  from len nth len44 EncodeToString_alphabet [of ?token] dec inj cr
  show "\<exists>token.
           8 * length token = 256
           \<and> (\<forall>i<32. token ! i = bytes rng i)
           \<and> length (EncodeToString token) = 44
           \<and> set (EncodeToString token) \<subseteq> set encodeURL \<union> {CHR ''=''}
           \<and> base64url_decode (EncodeToString token) = Some token
           \<and> (\<forall>other. EncodeToString other = EncodeToString token \<longrightarrow> other = token)
           \<and> Create rng now s userID username groupIDs =
               Inr (EncodeToString token,
                    s(EncodeToString token \<mapsto>
                        \<lparr>UserID = userID, Username = username, GroupIDs = groupIDs,
                         Expires = now + 86400 * 1000000000\<rparr>))"
    by blast
qed

theorem Create_token_expiry_witness:
  "\<not> unavailable ex_rng_steps
   \<and> length ex_token_steps = 44
   \<and> Create ex_rng_steps 100 NewSessionStore 1 ''admin'' [1] =
       Inr (ex_token_steps,
            NewSessionStore(ex_token_steps \<mapsto>
              \<lparr>UserID = 1, Username = ''admin'', GroupIDs = [1], Expires = 86400000000100\<rparr>))
   \<and> base64url_decode ex_token_steps =
       Some [250, 1, 8, 15, 22, 29, 36, 43, 50, 57, 64, 71, 78, 85, 92, 99, 106, 113, 120, 127,
             134, 141, 148, 155, 162, 169, 176, 183, 190, 197, 204, 211]"
proof -
  have h: "\<not> unavailable ex_rng_steps"
    by (simp add: ex_rng_steps_def)
  from Create_token_expiry [of ex_rng_steps 100 NewSessionStore 1 "''admin''" "[1]"] h
  obtain token where len: "8 * length token = 256"
    and nth: "\<forall>i<32. token ! i = bytes ex_rng_steps i"
    and len44: "length (EncodeToString token) = 44"
    and dec: "base64url_decode (EncodeToString token) = Some token"
    and cr: "Create ex_rng_steps 100 NewSessionStore 1 ''admin'' [1] =
             Inr (EncodeToString token,
                  NewSessionStore(EncodeToString token \<mapsto>
                    \<lparr>UserID = 1, Username = ''admin'', GroupIDs = [1],
                     Expires = 100 + 86400 * 1000000000\<rparr>))"
    by blast
  have "token = map (bytes ex_rng_steps) [0..<32]"
  proof (rule nth_equalityI)
    show "length token = length (map (bytes ex_rng_steps) [0..<32])"
      using len by simp
  next
    fix i assume "i < length token"
    with len nth show "token ! i = map (bytes ex_rng_steps) [0..<32] ! i"
      by simp
  qed
  then have bytes: "token =
      [250, 1, 8, 15, 22, 29, 36, 43, 50, 57, 64, 71, 78, 85, 92, 99, 106, 113, 120, 127, 134,
       141, 148, 155, 162, 169, 176, 183, 190, 197, 204, 211]"
    by (simp only: ex_rng_steps_bytes)
  have tok: "EncodeToString token = ex_token_steps"
    unfolding bytes by (rule EncodeToString_steps)
  from h len44 cr dec show ?thesis
    unfolding tok unfolding bytes by simp
qed

text \<open>
  C2, as the code has it. \<^verbatim>\<open>Get\<close> tests \<^verbatim>\<open>session.Expires.Before(time.Now())\<close>, which is
  false at the expiry instant itself: the token of a created session resolves to the
  session at every instant up to and including its expiry, and to nothing at every later
  instant; a token the store does not hold resolves to nothing.
\<close>

theorem Get_created_session:
  assumes "Create rng now s userID username groupIDs = Inr (sessionID, s')"
  shows "(t \<le> now + 24 * Hour \<longrightarrow>
            Get s' t sessionID =
              Some \<lparr>UserID = userID, Username = username, GroupIDs = groupIDs,
                    Expires = now + 24 * Hour\<rparr>)
       \<and> (now + 24 * Hour < t \<longrightarrow> Get s' t sessionID = None)
       \<and> (\<forall>k. s' k = None \<longrightarrow> Get s' t k = None)"
proof -
  from assms have ok: "\<not> unavailable rng"
    by (auto simp: Create_def rand_Read_def split: if_splits)
  from assms Create_ok [OF ok, of now s userID username groupIDs]
  have "s' sessionID =
      Some \<lparr>UserID = userID, Username = username, GroupIDs = groupIDs,
            Expires = now + 24 * Hour\<rparr>"
    by auto
  then show ?thesis
    by (auto simp: Get_def Before_def)
qed

theorem Get_created_session_witness:
  "Create ex_rng 0 NewSessionStore 1 ''admin'' [1] =
     Inr (ex_token,
          NewSessionStore(ex_token \<mapsto>
            \<lparr>UserID = 1, Username = ''admin'', GroupIDs = [1], Expires = 86400000000000\<rparr>))
   \<and> Get (NewSessionStore(ex_token \<mapsto>
            \<lparr>UserID = 1, Username = ''admin'', GroupIDs = [1], Expires = 86400000000000\<rparr>))
        86399999999999 ex_token =
       Some \<lparr>UserID = 1, Username = ''admin'', GroupIDs = [1], Expires = 86400000000000\<rparr>
   \<and> Get (NewSessionStore(ex_token \<mapsto>
            \<lparr>UserID = 1, Username = ''admin'', GroupIDs = [1], Expires = 86400000000000\<rparr>))
        86400000000001 ex_token = None"
proof -
  have c: "Create ex_rng 0 NewSessionStore 1 ''admin'' [1] =
     Inr (ex_token,
          NewSessionStore(ex_token \<mapsto>
            \<lparr>UserID = 1, Username = ''admin'', GroupIDs = [1], Expires = 86400000000000\<rparr>))"
    using Create_ex_rng [of 0 NewSessionStore 1 "''admin''" "[1]"] by simp
  from Get_created_session [OF c, of 86399999999999]
       Get_created_session [OF c, of 86400000000001] c
  show ?thesis
    by (simp add: Hour_def)
qed

text \<open>
  C2 as stated fails at the expiry instant: a session created at instant 0 expires at
  instant 86400000000000 (24 hours in nanoseconds), and resolving its token at exactly
  that instant still returns the session.
\<close>

theorem Get_at_expiry_counterexample:
  "Create ex_rng 0 NewSessionStore 1 ''admin'' [1] =
     Inr (ex_token,
          NewSessionStore(ex_token \<mapsto>
            \<lparr>UserID = 1, Username = ''admin'', GroupIDs = [1], Expires = 86400000000000\<rparr>))
   \<and> Get (NewSessionStore(ex_token \<mapsto>
            \<lparr>UserID = 1, Username = ''admin'', GroupIDs = [1], Expires = 86400000000000\<rparr>))
        86400000000000 ex_token =
       Some \<lparr>UserID = 1, Username = ''admin'', GroupIDs = [1], Expires = 86400000000000\<rparr>"
proof -
  have c: "Create ex_rng 0 NewSessionStore 1 ''admin'' [1] =
     Inr (ex_token,
          NewSessionStore(ex_token \<mapsto>
            \<lparr>UserID = 1, Username = ''admin'', GroupIDs = [1], Expires = 86400000000000\<rparr>))"
    using Create_ex_rng [of 0 NewSessionStore 1 "''admin''" "[1]"] by simp
  then show ?thesis
    by (simp add: Get_def Before_def)
qed

section \<open>Properties of the handlers\<close>

subsection \<open>isAdmin\<close>

lemma isAdmin_groups_iff:
  "isAdmin_groups groupID gs = (\<exists>g\<in>set gs. Group_ID g = groupID \<and> Group_Name g = ''admins'')"
  by (induction gs) auto

lemma isAdmin_ids_iff:
  "isAdmin_ids ids gs = (\<exists>groupID\<in>set ids. isAdmin_groups groupID gs)"
  by (induction ids) auto

lemma isAdmin_eq:
  "isAdmin db session =
     (\<not> failing db SelectGroups
      \<and> (\<exists>groupID\<in>set (GroupIDs session). \<exists>g\<in>set (groups db).
            Group_ID g = groupID \<and> Group_Name g = ''admins''))"
  by (auto simp: isAdmin_def GetAllGroups_def isAdmin_ids_iff isAdmin_groups_iff)

text \<open>
  C4. \<^verbatim>\<open>isAdmin\<close> is a boolean, so it has no error result. It is true exactly when the
  group table can be read and one of the session's group ids is the id of a row of the
  table whose name is \<^verbatim>\<open>admins\<close>. So it is false when the lookup fails, and false when
  none of the session's group ids is in the table.
\<close>

theorem isAdmin_iff:
  "(isAdmin db session \<longleftrightarrow>
      \<not> failing db SelectGroups
      \<and> (\<exists>groupID\<in>set (GroupIDs session). \<exists>g\<in>set (groups db).
            Group_ID g = groupID \<and> Group_Name g = ''admins''))
   \<and> (failing db SelectGroups \<longrightarrow> \<not> isAdmin db session)
   \<and> ((\<forall>groupID\<in>set (GroupIDs session). \<forall>g\<in>set (groups db). Group_ID g \<noteq> groupID)
        \<longrightarrow> \<not> isAdmin db session)"
  unfolding isAdmin_eq by blast

theorem isAdmin_iff_witness:
  "isAdmin ex_db ex_new
   \<and> \<not> isAdmin ex_db ex_old
   \<and> \<not> isAdmin ex_db ex_absent_group
   \<and> \<not> isAdmin ex_db_groups_fail ex_new"
  using isAdmin_iff [of ex_db ex_new] isAdmin_iff [of ex_db ex_old]
    isAdmin_iff [of ex_db ex_absent_group]
    isAdmin_iff [of ex_db_groups_fail ex_new]
  by (simp add: ex_db_def ex_db_groups_fail_def ex_new_def ex_old_def ex_absent_group_def)

subsection \<open>Login\<close>

lemma ValidateUser_unknown:
  assumes "\<forall>row\<in>set (users db). fst (snd row) \<noteq> username"
  shows "isl (ValidateUser bcrypt db username password)"
proof -
  have "filter (\<lambda>(i, n, h). n = username) (users db) = []"
    using assms by (auto simp: filter_empty_conv)
  then show ?thesis
    by (simp add: ValidateUser_def GetUserByUsername_def)
qed

lemma ValidateUser_wrong:
  assumes "\<forall>row\<in>set (users db).
             fst (snd row) = username \<longrightarrow> \<not> bcrypt (snd (snd row)) password"
  shows "isl (ValidateUser bcrypt db username password)"
proof (cases "filter (\<lambda>(i, n, h). n = username) (users db)")
  case Nil
  then show ?thesis
    by (simp add: ValidateUser_def GetUserByUsername_def)
next
  case (Cons row rows)
  obtain i n h where row: "row = (i, n, h)"
    by (cases row) auto
  have "row \<in> set (filter (\<lambda>(i, n, h). n = username) (users db))"
    using Cons by simp
  with row assms have "\<not> bcrypt h password"
    by auto
  with Cons row show ?thesis
    by (simp add: ValidateUser_def GetUserByUsername_def)
qed

lemma Login_invalid:
  assumes "Method r = ''POST''"
    and "isl (ValidateUser bcrypt db (FormValue r ''username'') (FormValue r ''password''))"
  shows "Login bcrypt db rng now sessions r =
           ((None, ExecuteTemplate ''login.html'' [(''Error'', ''Invalid credentials'')]),
            sessions)"
  using assms by (auto simp: Login_def Let_def split: sum.splits)

text \<open>
  C8. A login (a POST) with a user name that no row of \<^verbatim>\<open>users\<close> has and a login with
  the name of a stored user and a password that bcrypt rejects for the stored hash get
  the same answer: the login page with the message \<^verbatim>\<open>Invalid credentials\<close>, no cookie,
  and the session store as it was.
\<close>

theorem Login_invalid_same:
  assumes "Method r1 = ''POST''" and "Method r2 = ''POST''"
    and "\<forall>row\<in>set (users db). fst (snd row) \<noteq> FormValue r1 ''username''"
    and "\<exists>row\<in>set (users db). fst (snd row) = FormValue r2 ''username''"
    and "\<forall>row\<in>set (users db).
           fst (snd row) = FormValue r2 ''username''
           \<longrightarrow> \<not> bcrypt (snd (snd row)) (FormValue r2 ''password'')"
  shows "Login bcrypt db rng now sessions r1 =
           ((None, ExecuteTemplate ''login.html'' [(''Error'', ''Invalid credentials'')]),
            sessions)
       \<and> Login bcrypt db rng now sessions r2 = Login bcrypt db rng now sessions r1"
proof -
  have a: "Login bcrypt db rng now sessions r1 =
           ((None, ExecuteTemplate ''login.html'' [(''Error'', ''Invalid credentials'')]),
            sessions)"
    using assms(1) ValidateUser_unknown [OF assms(3)] by (rule Login_invalid)
  have b: "Login bcrypt db rng now sessions r2 =
           ((None, ExecuteTemplate ''login.html'' [(''Error'', ''Invalid credentials'')]),
            sessions)"
    using assms(2)
      ValidateUser_wrong [where bcrypt = bcrypt and username = "FormValue r2 ''username''"
        and password = "FormValue r2 ''password''", OF assms(5)]
    by (rule Login_invalid)
  from a b show ?thesis
    by simp
qed

theorem Login_invalid_same_witness:
  "Login ex_bcrypt ex_db ex_rng 0 ex_sessions ex_login_unknown =
     ((None, ExecuteTemplate ''login.html'' [(''Error'', ''Invalid credentials'')]), ex_sessions)
   \<and> Login ex_bcrypt ex_db ex_rng 0 ex_sessions ex_login_wrong =
       Login ex_bcrypt ex_db ex_rng 0 ex_sessions ex_login_unknown"
proof -
  have m1: "Method ex_login_unknown = ''POST''"
    by (simp add: ex_login_unknown_def)
  have m2: "Method ex_login_wrong = ''POST''"
    by (simp add: ex_login_wrong_def)
  have u: "\<forall>row\<in>set (users ex_db). fst (snd row) \<noteq> FormValue ex_login_unknown ''username''"
    by (simp add: ex_db_def ex_login_unknown_def FormValue_def)
  have k: "\<exists>row\<in>set (users ex_db). fst (snd row) = FormValue ex_login_wrong ''username''"
    by (simp add: ex_db_def ex_login_wrong_def FormValue_def)
  have w: "\<forall>row\<in>set (users ex_db).
             fst (snd row) = FormValue ex_login_wrong ''username''
             \<longrightarrow> \<not> ex_bcrypt (snd (snd row)) (FormValue ex_login_wrong ''password'')"
    by (simp add: ex_db_def ex_login_wrong_def FormValue_def ex_bcrypt_def)
  show ?thesis
    by (rule Login_invalid_same [where bcrypt = ex_bcrypt and db = ex_db
          and ?r1.0 = ex_login_unknown and ?r2.0 = ex_login_wrong, OF m1 m2 u k w])
qed

subsection \<open>The access decision of DownloadFile\<close>

lemma UserHasAccessToGroup_iff:
  "UserHasAccessToGroup db userID groupID =
     (if failing db CountUserGroup then Inl SqlError
      else Inr ((userID, groupID) \<in> set (user_groups db)))"
proof -
  have "(filter (\<lambda>(u, g). u = userID \<and> g = groupID) (user_groups db) \<noteq> [])
          = ((userID, groupID) \<in> set (user_groups db))"
    by (auto simp: filter_empty_conv)
  then show ?thesis
    by (simp add: UserHasAccessToGroup_def)
qed

lemma Atoi_1: "Atoi ''1'' = (1, None)"
  by (simp add: Atoi_def ParseUint_def isDigit_def maxUint64_def)

lemma GetFileByID_single:
  "files db = [f] \<Longrightarrow> File_ID f = n \<Longrightarrow> \<not> failing db SelectFileByID \<Longrightarrow>
   GetFileByID db n = Inr f"
  by (simp add: GetFileByID_def)

lemma GetFileByID_ex:
  "files db = [ex_file] \<Longrightarrow> \<not> failing db SelectFileByID \<Longrightarrow> GetFileByID db 1 = Inr ex_file"
  by (rule GetFileByID_single) (simp_all add: ex_file_def)

text \<open>
  C1, as the code has it. The decision that gates a download is
  \<^verbatim>\<open>UserHasAccessToGroup(session.UserID, file.GroupID)\<close>, a count over the live
  \<^verbatim>\<open>user_groups\<close> table: when the query succeeds it is true exactly when the table now
  holds the row (user id of the session, group id). The group ids stored in the session
  play no part: \<^verbatim>\<open>DownloadFile\<close> answers the same whatever they are.
\<close>

theorem access_decision_live:
  "UserHasAccessToGroup db (UserID session) g =
     (if failing db CountUserGroup then Inl SqlError
      else Inr ((UserID session, g) \<in> set (user_groups db)))
   \<and> DownloadFile escapeBase db fs (session\<lparr>GroupIDs := snapshot\<rparr>) r =
       DownloadFile escapeBase db fs session r"
proof -
  have "UserID (session\<lparr>GroupIDs := snapshot\<rparr>) = UserID session"
    by simp
  then have "DownloadFile escapeBase db fs (session\<lparr>GroupIDs := snapshot\<rparr>) r =
       DownloadFile escapeBase db fs session r"
    unfolding DownloadFile_def by (rule ssubst) (rule refl)
  then show ?thesis
    by (simp add: UserHasAccessToGroup_iff)
qed

theorem access_decision_live_witness:
  "\<not> failing ex_db CountUserGroup
   \<and> UserHasAccessToGroup ex_db (UserID ex_old) 2 = Inr True
   \<and> UserHasAccessToGroup ex_db (UserID ex_old) 1 = Inr False
   \<and> DownloadFile ex_escapeBase ex_db ex_fs (ex_old\<lparr>GroupIDs := []\<rparr>) ex_download =
       DownloadFile ex_escapeBase ex_db ex_fs ex_old ex_download"
  using access_decision_live [of ex_db ex_old 2 ex_escapeBase ex_fs "[]" ex_download]
    access_decision_live [of ex_db ex_old 1 ex_escapeBase ex_fs "[]" ex_download]
  by (simp add: ex_db_def ex_old_def)

text \<open>
  C1 as stated fails in both directions. The session of \<^verbatim>\<open>user1\<close> holds group 2, the
  group of the file, but after the membership row is gone the decision is false and the
  download is refused. The session of \<^verbatim>\<open>admin\<close> does not hold group 2, but once the
  membership row exists the decision is true.
\<close>

theorem access_snapshot_counterexample:
  "File_GroupID ex_file \<in> set (GroupIDs ex_old)
   \<and> UserHasAccessToGroup ex_db_revoked (UserID ex_old) (File_GroupID ex_file) = Inr False
   \<and> DownloadFile ex_escapeBase ex_db_revoked ex_fs ex_old ex_download =
       (Error ''Access denied'' 403, [Query SelectFileByID, Query CountUserGroup])
   \<and> File_GroupID ex_file \<notin> set (GroupIDs ex_new)
   \<and> UserHasAccessToGroup ex_db_granted (UserID ex_new) (File_GroupID ex_file) = Inr True"
proof -
  have a: "UserHasAccessToGroup ex_db_revoked 2 2 = Inr False"
    by (simp add: UserHasAccessToGroup_iff ex_db_revoked_def ex_db_def)
  have b: "UserHasAccessToGroup ex_db_granted 1 2 = Inr True"
    by (simp add: UserHasAccessToGroup_iff ex_db_granted_def ex_db_def)
  have f: "GetFileByID ex_db_revoked 1 = Inr ex_file"
    by (rule GetFileByID_ex) (simp_all add: ex_db_revoked_def ex_db_def)
  have g: "File_GroupID ex_file = 2"
    by (simp add: ex_file_def)
  have d: "DownloadFile ex_escapeBase ex_db_revoked ex_fs ex_old ex_download =
       (Error ''Access denied'' 403, [Query SelectFileByID, Query CountUserGroup])"
    by (simp add: DownloadFile_def QueryGet_def ex_download_def Atoi_1 f g a ex_old_def)
  from a b d g show ?thesis
    by (simp add: ex_old_def ex_new_def)
qed

subsection \<open>What Atoi accepts\<close>


















subsection \<open>The outcomes of DownloadFile\<close>















subsection \<open>AdminDeleteGroup\<close>

lemma GetGroupFileCount_pos:
  "\<not> failing db CountFilesOfGroup \<Longrightarrow>
   (fst (GetGroupFileCount db groupID) > 0) = (\<exists>f\<in>set (files db). File_GroupID f = groupID)"
  by (auto simp: GetGroupFileCount_def filter_empty_conv)

lemma GetGroupFileCount_failed:
  "failing db CountFilesOfGroup \<Longrightarrow> GetGroupFileCount db groupID = (0, Some SqlError)"
  by (simp add: GetGroupFileCount_def)

lemma AdminDeleteGroup_refused:
  assumes "Method r = ''POST''" and "isAdmin db session"
    and "fst (GetGroupFileCount db (fst (Atoi (FormValue r ''id'')))) > 0"
  shows "AdminDeleteGroup db session r =
           (Redirect ''/admin/groups?error=Cannot+delete+group+with+files+assigned'' 303, db)"
  using assms by (simp add: AdminDeleteGroup_def Let_def)

lemma AdminDeleteGroup_proceeds:
  assumes "Method r = ''POST''" and "isAdmin db session"
    and "\<not> fst (GetGroupFileCount db (fst (Atoi (FormValue r ''id'')))) > 0"
  shows "AdminDeleteGroup db session r =
           (case DeleteGroup db (fst (Atoi (FormValue r ''id''))) of
              Inl err \<Rightarrow> (Redirect ''/admin/groups?error=Failed+to+delete+group'' 303, db)
            | Inr db' \<Rightarrow> (Redirect ''/admin/groups?success=Group+deleted+successfully'' 303, db'))"
  using assms by (simp add: AdminDeleteGroup_def Let_def)

lemma DeleteGroup_ok:
  "\<not> failing db DeleteFromGroups \<Longrightarrow>
   DeleteGroup db groupID = Inr (db\<lparr>groups := filter (\<lambda>g. Group_ID g \<noteq> groupID) (groups db)\<rparr>)"
  by (simp add: DeleteGroup_def)

lemma DeleteGroup_failed:
  "failing db DeleteFromGroups \<Longrightarrow> DeleteGroup db groupID = Inl SqlError"
  by (simp add: DeleteGroup_def)

lemma Atoi_2: "Atoi ''2'' = (2, None)"
  by (simp add: Atoi_def ParseUint_def isDigit_def maxUint64_def)

lemma ex_delete_group_id: "fst (Atoi (FormValue ex_delete_group ''id'')) = 2"
  by (simp add: FormValue_def ex_delete_group_def Atoi_2)

lemma ex_delete_group_post: "Method ex_delete_group = ''POST''"
  by (simp add: ex_delete_group_def)

lemma ex_new_isAdmin:
  "groups db = groups ex_db \<Longrightarrow> \<not> failing db SelectGroups \<Longrightarrow> isAdmin db ex_new"
  by (simp add: isAdmin_eq ex_db_def ex_new_def)

text \<open>
  C7, as the code has it. For a POST of an admin, with \<open>n\<close> the group id of the request,
  and when the count of the files of group \<open>n\<close> can be read: if a file references the
  group, the reply is a redirect with the message that the group has files assigned, and
  the database is unchanged; if no file references it and the \<^verbatim>\<open>DELETE\<close> statement
  succeeds, the reply is the redirect reporting success and the table has no group
  \<open>n\<close> any more; if no file references it and the \<^verbatim>\<open>DELETE\<close> statement fails, the
  reply is the redirect reporting that the deletion failed and the database is unchanged.
\<close>

theorem AdminDeleteGroup_guard:
  assumes "Method r = ''POST''" and "isAdmin db session"
    and "\<not> failing db CountFilesOfGroup"
  shows "((\<exists>f\<in>set (files db). File_GroupID f = fst (Atoi (FormValue r ''id'')))
           \<longrightarrow> AdminDeleteGroup db session r =
                 (Redirect ''/admin/groups?error=Cannot+delete+group+with+files+assigned'' 303,
                  db))
       \<and> ((\<forall>f\<in>set (files db). File_GroupID f \<noteq> fst (Atoi (FormValue r ''id'')))
            \<and> \<not> failing db DeleteFromGroups
           \<longrightarrow> AdminDeleteGroup db session r =
                 (Redirect ''/admin/groups?success=Group+deleted+successfully'' 303,
                  db\<lparr>groups := filter (\<lambda>g. Group_ID g \<noteq> fst (Atoi (FormValue r ''id'')))
                                  (groups db)\<rparr>)
               \<and> (\<forall>g\<in>set (groups (snd (AdminDeleteGroup db session r))).
                     Group_ID g \<noteq> fst (Atoi (FormValue r ''id''))))
       \<and> ((\<forall>f\<in>set (files db). File_GroupID f \<noteq> fst (Atoi (FormValue r ''id'')))
            \<and> failing db DeleteFromGroups
           \<longrightarrow> AdminDeleteGroup db session r =
                 (Redirect ''/admin/groups?error=Failed+to+delete+group'' 303, db))"
proof (intro conjI impI)
  assume "\<exists>f\<in>set (files db). File_GroupID f = fst (Atoi (FormValue r ''id''))"
  then have "fst (GetGroupFileCount db (fst (Atoi (FormValue r ''id'')))) > 0"
    by (simp add: GetGroupFileCount_pos [OF assms(3)])
  then show "AdminDeleteGroup db session r =
      (Redirect ''/admin/groups?error=Cannot+delete+group+with+files+assigned'' 303, db)"
    by (rule AdminDeleteGroup_refused [OF assms(1,2)])
next
  assume h: "(\<forall>f\<in>set (files db). File_GroupID f \<noteq> fst (Atoi (FormValue r ''id'')))
      \<and> \<not> failing db DeleteFromGroups"
  then have "\<not> fst (GetGroupFileCount db (fst (Atoi (FormValue r ''id'')))) > 0"
    by (simp add: GetGroupFileCount_pos [OF assms(3)])
  from AdminDeleteGroup_proceeds [OF assms(1,2) this] h
  show eq: "AdminDeleteGroup db session r =
      (Redirect ''/admin/groups?success=Group+deleted+successfully'' 303,
       db\<lparr>groups := filter (\<lambda>g. Group_ID g \<noteq> fst (Atoi (FormValue r ''id''))) (groups db)\<rparr>)"
    by (simp add: DeleteGroup_ok)
  show "\<forall>g\<in>set (groups (snd (AdminDeleteGroup db session r))).
          Group_ID g \<noteq> fst (Atoi (FormValue r ''id''))"
    by (simp add: eq)
next
  assume h: "(\<forall>f\<in>set (files db). File_GroupID f \<noteq> fst (Atoi (FormValue r ''id'')))
      \<and> failing db DeleteFromGroups"
  then have "\<not> fst (GetGroupFileCount db (fst (Atoi (FormValue r ''id'')))) > 0"
    by (simp add: GetGroupFileCount_pos [OF assms(3)])
  from AdminDeleteGroup_proceeds [OF assms(1,2) this] h
  show "AdminDeleteGroup db session r =
      (Redirect ''/admin/groups?error=Failed+to+delete+group'' 303, db)"
    by (simp add: DeleteGroup_failed)
qed

theorem AdminDeleteGroup_guard_witness:
  "Method ex_delete_group = ''POST'' \<and> isAdmin ex_db ex_new
   \<and> \<not> failing ex_db CountFilesOfGroup
   \<and> ex_file \<in> set (files ex_db) \<and> File_GroupID ex_file = 2
   \<and> AdminDeleteGroup ex_db ex_new ex_delete_group =
       (Redirect ''/admin/groups?error=Cannot+delete+group+with+files+assigned'' 303, ex_db)
   \<and> DeleteFile ex_db 1 = Inr ex_db_nofiles
   \<and> AdminDeleteGroup ex_db_nofiles ex_new ex_delete_group =
       (Redirect ''/admin/groups?success=Group+deleted+successfully'' 303,
        ex_db_nofiles\<lparr>groups := [\<lparr>Group_ID = 1, Group_Name = ''admins''\<rparr>]\<rparr>)
   \<and> isAdmin ex_db_delete_fails ex_new \<and> \<not> failing ex_db_delete_fails CountFilesOfGroup
   \<and> files ex_db_delete_fails = [] \<and> failing ex_db_delete_fails DeleteFromGroups
   \<and> snd (AdminDeleteGroup ex_db_delete_fails ex_new ex_delete_group) = ex_db_delete_fails
   \<and> statusOf (fst (AdminDeleteGroup ex_db_delete_fails ex_new ex_delete_group)) = 303"
proof -
  note m = ex_delete_group_post
  have a1: "isAdmin ex_db ex_new"
    by (rule ex_new_isAdmin) (simp_all add: ex_db_def)
  have a2: "isAdmin ex_db_nofiles ex_new"
    by (rule ex_new_isAdmin) (simp_all add: ex_db_nofiles_def ex_db_def)
  have c1: "\<not> failing ex_db CountFilesOfGroup"
    by (simp add: ex_db_def)
  have c2: "\<not> failing ex_db_nofiles CountFilesOfGroup"
    by (simp add: ex_db_nofiles_def ex_db_def)
  have f1: "ex_file \<in> set (files ex_db) \<and> File_GroupID ex_file = 2"
    by (simp add: ex_db_def ex_file_def)
  have f2: "(\<forall>f\<in>set (files ex_db_nofiles). File_GroupID f \<noteq> 2)
      \<and> \<not> failing ex_db_nofiles DeleteFromGroups"
    by (simp add: ex_db_nofiles_def ex_db_def)
  have d: "DeleteFile ex_db 1 = Inr ex_db_nofiles"
    by (simp add: DeleteFile_def ex_db_nofiles_def ex_db_def ex_file_def)
  have g: "filter (\<lambda>g. Group_ID g \<noteq> 2) (groups ex_db_nofiles) =
             [\<lparr>Group_ID = 1, Group_Name = ''admins''\<rparr>]"
    by (simp add: ex_db_nofiles_def ex_db_def)
  from AdminDeleteGroup_guard [OF m a1 c1] f1
  have r1: "AdminDeleteGroup ex_db ex_new ex_delete_group =
       (Redirect ''/admin/groups?error=Cannot+delete+group+with+files+assigned'' 303, ex_db)"
    unfolding ex_delete_group_id by blast
  from AdminDeleteGroup_guard [OF m a2 c2] f2
  have r2: "AdminDeleteGroup ex_db_nofiles ex_new ex_delete_group =
       (Redirect ''/admin/groups?success=Group+deleted+successfully'' 303,
        ex_db_nofiles\<lparr>groups := [\<lparr>Group_ID = 1, Group_Name = ''admins''\<rparr>]\<rparr>)"
    unfolding ex_delete_group_id g by blast
  have a3: "isAdmin ex_db_delete_fails ex_new"
    by (rule ex_new_isAdmin) (simp_all add: ex_db_delete_fails_def ex_db_nofiles_def ex_db_def)
  have c3: "\<not> failing ex_db_delete_fails CountFilesOfGroup"
    by (simp add: ex_db_delete_fails_def)
  have f3: "files ex_db_delete_fails = []"
    by (simp add: ex_db_delete_fails_def ex_db_nofiles_def)
  have x3: "failing ex_db_delete_fails DeleteFromGroups"
    by (simp add: ex_db_delete_fails_def)
  from f3 x3 have h3: "(\<forall>f\<in>set (files ex_db_delete_fails). File_GroupID f \<noteq> 2)
      \<and> failing ex_db_delete_fails DeleteFromGroups"
    by simp
  from AdminDeleteGroup_guard [OF m a3 c3] h3
  have "AdminDeleteGroup ex_db_delete_fails ex_new ex_delete_group =
       (Redirect ''/admin/groups?error=Failed+to+delete+group'' 303, ex_db_delete_fails)"
    unfolding ex_delete_group_id by blast
  then have r3: "snd (AdminDeleteGroup ex_db_delete_fails ex_new ex_delete_group) =
        ex_db_delete_fails
      \<and> statusOf (fst (AdminDeleteGroup ex_db_delete_fails ex_new ex_delete_group)) = 303"
    by (simp add: statusOf_def)
  from m a1 c1 f1 r1 d r2 a3 c3 f3 x3 r3 show ?thesis
    by blast
qed

text \<open>
  C7 as stated fails when a statement fails. With the count query failing, group 2 is
  deleted although the file still references it. With no file left and the \<^verbatim>\<open>DELETE\<close>
  statement failing, the deletion does not succeed: the reply reports the failure and the
  groups are as before.
\<close>

theorem AdminDeleteGroup_guard_counterexample:
  "ex_file \<in> set (files ex_db_count_fails) \<and> File_GroupID ex_file = 2
   \<and> AdminDeleteGroup ex_db_count_fails ex_new ex_delete_group =
       (Redirect ''/admin/groups?success=Group+deleted+successfully'' 303,
        ex_db_count_fails\<lparr>groups := [\<lparr>Group_ID = 1, Group_Name = ''admins''\<rparr>]\<rparr>)
   \<and> files ex_db_delete_fails = []
   \<and> AdminDeleteGroup ex_db_delete_fails ex_new ex_delete_group =
       (Redirect ''/admin/groups?error=Failed+to+delete+group'' 303, ex_db_delete_fails)"
proof -
  have a1: "isAdmin ex_db_count_fails ex_new"
    by (rule ex_new_isAdmin) (simp_all add: ex_db_count_fails_def ex_db_def)
  have a2: "isAdmin ex_db_delete_fails ex_new"
    by (rule ex_new_isAdmin) (simp_all add: ex_db_delete_fails_def ex_db_nofiles_def ex_db_def)
  have n1: "\<not> fst (GetGroupFileCount ex_db_count_fails
                     (fst (Atoi (FormValue ex_delete_group ''id'')))) > 0"
    by (simp add: GetGroupFileCount_failed ex_db_count_fails_def)
  have n2: "\<not> fst (GetGroupFileCount ex_db_delete_fails
                     (fst (Atoi (FormValue ex_delete_group ''id'')))) > 0"
    by (simp add: GetGroupFileCount_def ex_db_delete_fails_def ex_db_nofiles_def ex_db_def)
  have d1: "DeleteGroup ex_db_count_fails 2 =
      Inr (ex_db_count_fails\<lparr>groups := [\<lparr>Group_ID = 1, Group_Name = ''admins''\<rparr>]\<rparr>)"
    by (simp add: DeleteGroup_def ex_db_count_fails_def ex_db_def)
  have d2: "DeleteGroup ex_db_delete_fails 2 = Inl SqlError"
    by (simp add: DeleteGroup_failed ex_db_delete_fails_def)
  have r1: "AdminDeleteGroup ex_db_count_fails ex_new ex_delete_group =
       (Redirect ''/admin/groups?success=Group+deleted+successfully'' 303,
        ex_db_count_fails\<lparr>groups := [\<lparr>Group_ID = 1, Group_Name = ''admins''\<rparr>]\<rparr>)"
    using AdminDeleteGroup_proceeds [OF ex_delete_group_post a1 n1]
    by (simp add: ex_delete_group_id d1)
  have r2: "AdminDeleteGroup ex_db_delete_fails ex_new ex_delete_group =
       (Redirect ''/admin/groups?error=Failed+to+delete+group'' 303, ex_db_delete_fails)"
    using AdminDeleteGroup_proceeds [OF ex_delete_group_post a2 n2]
    by (simp add: ex_delete_group_id d2)
  have f1: "ex_file \<in> set (files ex_db_count_fails) \<and> File_GroupID ex_file = 2"
    by (simp add: ex_db_count_fails_def ex_db_def ex_file_def)
  have f2: "files ex_db_delete_fails = []"
    by (simp add: ex_db_delete_fails_def ex_db_nofiles_def)
  from f1 r1 f2 r2 show ?thesis
    by blast
qed

text \<open>
  C10. In a POST of an admin, when the count query fails, \<^verbatim>\<open>GetGroupFileCount\<close> returns 0
  with the error, the handler drops the error, the test \<^verbatim>\<open>fileCount > 0\<close> is false and
  \<^verbatim>\<open>DeleteGroup\<close> is called, whatever files reference the group: the reply is the one of
  the deletion, and when the \<^verbatim>\<open>DELETE\<close> statement succeeds the group is gone.
\<close>

theorem AdminDeleteGroup_count_error_ignored:
  assumes "Method r = ''POST''" and "isAdmin db session"
    and "failing db CountFilesOfGroup"
  shows "GetGroupFileCount db (fst (Atoi (FormValue r ''id''))) = (0, Some SqlError)
       \<and> AdminDeleteGroup db session r =
           (case DeleteGroup db (fst (Atoi (FormValue r ''id''))) of
              Inl err \<Rightarrow> (Redirect ''/admin/groups?error=Failed+to+delete+group'' 303, db)
            | Inr db' \<Rightarrow>
                (Redirect ''/admin/groups?success=Group+deleted+successfully'' 303, db'))
       \<and> (\<not> failing db DeleteFromGroups \<longrightarrow>
            AdminDeleteGroup db session r =
              (Redirect ''/admin/groups?success=Group+deleted+successfully'' 303,
               db\<lparr>groups := filter (\<lambda>g. Group_ID g \<noteq> fst (Atoi (FormValue r ''id'')))
                               (groups db)\<rparr>))"
proof -
  have c: "GetGroupFileCount db (fst (Atoi (FormValue r ''id''))) = (0, Some SqlError)"
    using assms(3) by (rule GetGroupFileCount_failed)
  then have "\<not> fst (GetGroupFileCount db (fst (Atoi (FormValue r ''id'')))) > 0"
    by simp
  note p = AdminDeleteGroup_proceeds [OF assms(1,2) this]
  from c p show ?thesis
    by (simp add: DeleteGroup_ok)
qed

theorem AdminDeleteGroup_count_error_ignored_witness:
  "Method ex_delete_group = ''POST'' \<and> isAdmin ex_db_count_fails ex_new
   \<and> failing ex_db_count_fails CountFilesOfGroup
   \<and> \<not> failing ex_db_count_fails DeleteFromGroups
   \<and> files ex_db_count_fails = [ex_file] \<and> File_GroupID ex_file = 2
   \<and> GetGroupFileCount ex_db_count_fails 2 = (0, Some SqlError)
   \<and> groups (snd (AdminDeleteGroup ex_db_count_fails ex_new ex_delete_group)) =
       [\<lparr>Group_ID = 1, Group_Name = ''admins''\<rparr>]
   \<and> fst (AdminDeleteGroup ex_db_count_fails ex_new ex_delete_group) =
       Redirect ''/admin/groups?success=Group+deleted+successfully'' 303"
proof -
  note m = ex_delete_group_post
  have a: "isAdmin ex_db_count_fails ex_new"
    by (rule ex_new_isAdmin) (simp_all add: ex_db_count_fails_def ex_db_def)
  have c: "failing ex_db_count_fails CountFilesOfGroup"
    by (simp add: ex_db_count_fails_def)
  have d: "\<not> failing ex_db_count_fails DeleteFromGroups"
    by (simp add: ex_db_count_fails_def)
  have f: "files ex_db_count_fails = [ex_file] \<and> File_GroupID ex_file = 2"
    by (simp add: ex_db_count_fails_def ex_db_def ex_file_def)
  have g: "filter (\<lambda>g. Group_ID g \<noteq> 2) (groups ex_db_count_fails) =
             [\<lparr>Group_ID = 1, Group_Name = ''admins''\<rparr>]"
    by (simp add: ex_db_count_fails_def ex_db_def)
  note t = AdminDeleteGroup_count_error_ignored [OF m a c, unfolded ex_delete_group_id]
  from t d have r: "AdminDeleteGroup ex_db_count_fails ex_new ex_delete_group =
       (Redirect ''/admin/groups?success=Group+deleted+successfully'' 303,
        ex_db_count_fails\<lparr>groups := filter (\<lambda>g. Group_ID g \<noteq> 2) (groups ex_db_count_fails)\<rparr>)"
    by blast
  from t have k: "GetGroupFileCount ex_db_count_fails 2 = (0, Some SqlError)"
    by blast
  from m a c d f k show ?thesis
    by (simp add: r g)
qed

end
